theory Spec2Isabelle
  imports Main "HOL-Library.Word"
begin

section \<open>xk6-pubsub: a k6 extension publishing to Google Pub/Sub\<close>

text \<open>
  The repository holds two variants of one extension. \<^verbatim>\<open>src/pubsub.go\<close> publishes through
  the watermill library; its functions keep their names here. The second file
  (\<^verbatim>\<open>src/unnamed/part_000\<close>) uses the native \<^verbatim>\<open>cloud.google.com/go/pubsub\<close> client; its
  functions carry the suffix \<open>_native\<close>.

  Everything the extension does to the outside world is a call of a library: the decoder
  of the configuration map, the constructor of the client, the client's publish
  operation, the logger. The model writes each such call into a list of events, in the
  order the code makes them, and takes what the library answers as a parameter.
\<close>

subsection \<open>Go values\<close>

text \<open>
  A Go \<^verbatim>\<open>string\<close> is a sequence of bytes, here a \<open>string\<close>; \<^verbatim>\<open>[]byte(s)\<close> is the
  sequence of the same bytes as numbers. Go's \<^verbatim>\<open>int\<close> is taken at 64 bits, its
  width on the platforms k6 is built for; \<^verbatim>\<open>time.Duration\<close> is an \<^verbatim>\<open>int64\<close> of
  nanoseconds on every platform.
\<close>

type_synonym byte = "8 word"

definition bytes :: "string \<Rightarrow> byte list" where
  "bytes s = map of_char s"

type_synonym Duration = "64 word"

definition Second :: Duration where
  "Second = 1000000000"

text \<open>
  The values of Go's \<^verbatim>\<open>error\<close> interface the code meets: the ones it makes itself
  with \<^verbatim>\<open>errors.New\<close>, the decoder's (it names the fields whose value it could not
  convert), and whatever a library of the client hands back.
\<close>

datatype error =
    errorString string
  | decodeError "string list"
  | libraryError string

text \<open>
  A call either returns or ends the process: \<^verbatim>\<open>log.Fatalf\<close> prints and calls
  \<^verbatim>\<open>os.Exit(1)\<close>, so nothing after it runs.
\<close>

datatype 'a outcome = Returns 'a | Exit

subsection \<open>The configuration record and the client's configuration\<close>

record publisherConf =
  ProjectID :: string
  Credentials :: string
  PublishTimeout :: "64 word"
  Debug :: bool
  Trace :: bool
  DoNotCreateTopicIfMissing :: bool

text \<open>\<^verbatim>\<open>cnf := &publisherConf{}\<close>: every field at its zero value.\<close>

definition publisherConf_zero :: publisherConf where
  "publisherConf_zero =
     \<lparr>ProjectID = [], Credentials = [], PublishTimeout = 0,
      Debug = False, Trace = False, DoNotCreateTopicIfMissing = False\<rparr>"

datatype ClientOption = WithCredentialsJSON "byte list"

datatype CallOption = WithTimeout Duration

datatype Marshaler = DefaultMarshalerUnmarshaler

datatype StdLogger = NewStdLogger bool bool

text \<open>\<^verbatim>\<open>googlecloud.PublisherConfig\<close>, the fields the code sets.\<close>

record PublisherConfig =
  ProjectID_pc :: string
  Marshaler_pc :: Marshaler
  PublishTimeout_pc :: Duration
  DoNotCreateTopicIfMissing_pc :: bool
  ClientOptions_pc :: "ClientOption list"

text \<open>
  \<^verbatim>\<open>pubsub.ClientConfig\<close>: the code sets one field,
  \<^verbatim>\<open>PublisherCallOptions.Publish\<close>.
\<close>

record ClientConfig =
  PublisherCallOptions_Publish :: "CallOption list"

subsection \<open>Messages\<close>

text \<open>
  A Go map from strings to strings is the partial function of its entries; a \<^verbatim>\<open>nil\<close>
  map has none.
\<close>

record Message =
  UUID :: string
  Metadata :: "string \<rightharpoonup> string"
  Payload :: "byte list"

text \<open>
  \<^verbatim>\<open>pubsub.Message\<close> of the native client: \<open>ID\<close> is the identifier the service gives
  a message; a publisher leaves it at its zero value.
\<close>

record pubsub_Message =
  ID :: string
  Data :: "byte list"
  Attributes :: "string \<rightharpoonup> string"

subsection \<open>Events: the calls that leave the extension\<close>

datatype event =
    Fatalf string error
  | NewPublisher PublisherConfig StdLogger
  | NewClientWithConfig string ClientConfig "ClientOption list"
  | PublisherPublish string Message
  | TopicPublish string pubsub_Message
  | Report error string

subsection \<open>Decoding the configuration map\<close>

text \<open>
  \<^verbatim>\<open>mapstructure.Decode(config, cnf)\<close> is a call into the library
  \<^verbatim>\<open>github.com/mitchellh/mapstructure\<close> (v1.1.2 in \<^verbatim>\<open>go.mod\<close>), with the
  library's default decoder configuration. What it does with a map and a struct of
  strings, ints and bools, as the library documents and implements it:
  \<^item> for each field of the struct, in order, it looks the field's name up in the map,
    and when the name is no key, it takes the first key of the map that
    \<^verbatim>\<open>strings.EqualFold\<close> finds equal to the name; with no such key the field is left
    as it is;
  \<^item> a \<^verbatim>\<open>nil\<close> value leaves the field as it is; another value is converted to the
    field's kind and assigned, or, when it cannot be converted, the field's name goes
    into the error that is returned after all fields have been tried;
  \<^item> keys of the map that no field used are ignored (\<^verbatim>\<open>ErrorUnused\<close> is off).

  The configuration map is the list of its entries in the order in which this run's
  iteration over the map yields them (Go does not fix that order); its keys are
  distinct. The values are \<^verbatim>\<open>interface{}\<close>: a type variable \<open>'v\<close>, with what the
  decoder asks of a value as a record of functions.
\<close>

record 'v reflection =
  isNil :: "'v \<Rightarrow> bool"
  toString :: "'v \<Rightarrow> string option"
  toInt :: "'v \<Rightarrow> 64 word option"
  toBool :: "'v \<Rightarrow> bool option"

text \<open>
  \<^verbatim>\<open>strings.EqualFold(s, t)\<close>, byte by byte while both strings are at an ASCII byte:
  equal bytes, or an upper-case letter and its lower-case letter, go on; other ASCII
  bytes differ. From the first byte outside ASCII on, the comparison needs the UTF-8
  decoder and Unicode's folding tables: there the result is the parameter \<open>u\<close>.
\<close>

fun EqualFold :: "(string \<Rightarrow> string \<Rightarrow> bool) \<Rightarrow> string \<Rightarrow> string \<Rightarrow> bool" where
  "EqualFold u [] t = (t = [])"
| "EqualFold u (a # s) [] = False"
| "EqualFold u (a # s) (b # t) =
     (if (of_char a :: nat) < 128 \<and> (of_char b :: nat) < 128 then
        (if a = b then EqualFold u s t
         else if 65 \<le> min (of_char a :: nat) (of_char b) \<and> min (of_char a :: nat) (of_char b) \<le> 90
                 \<and> max (of_char a :: nat) (of_char b) = min (of_char a) (of_char b) + 32
              then EqualFold u s t
         else False)
      else u (a # s) (b # t))"

text \<open>The slower search of the decoder, over the keys in the order of the iteration.\<close>

fun foldSearch :: "(string \<Rightarrow> string \<Rightarrow> bool) \<Rightarrow> string \<Rightarrow> (string \<times> 'v) list \<Rightarrow> 'v option" where
  "foldSearch u fieldName [] = None"
| "foldSearch u fieldName ((mK, v) # rest) =
     (if EqualFold u mK fieldName then Some v else foldSearch u fieldName rest)"

definition rawMapVal :: "(string \<Rightarrow> string \<Rightarrow> bool) \<Rightarrow> (string \<times> 'v) list \<Rightarrow> string \<Rightarrow> 'v option" where
  "rawMapVal u config fieldName =
     (case map_of config fieldName of
        Some v \<Rightarrow> Some v
      | None \<Rightarrow> foldSearch u fieldName config)"

datatype 'a decoded = Untouched | Assigned 'a | Unconvertible

definition decode :: "'v reflection \<Rightarrow> ('v \<Rightarrow> 'a option) \<Rightarrow> 'v \<Rightarrow> 'a decoded" where
  "decode R conv input =
     (if isNil R input then Untouched
      else case conv input of Some a \<Rightarrow> Assigned a | None \<Rightarrow> Unconvertible)"

definition decodeField ::
  "'v reflection \<Rightarrow> (string \<Rightarrow> string \<Rightarrow> bool) \<Rightarrow> ('v \<Rightarrow> 'a option) \<Rightarrow> (string \<times> 'v) list \<Rightarrow> string \<Rightarrow> 'a decoded" where
  "decodeField R u conv config fieldName =
     (case rawMapVal u config fieldName of
        None \<Rightarrow> Untouched
      | Some v \<Rightarrow> decode R conv v)"

definition assign :: "'a decoded \<Rightarrow> 'a \<Rightarrow> 'a" where
  "assign d old = (case d of Assigned a \<Rightarrow> a | Untouched \<Rightarrow> old | Unconvertible \<Rightarrow> old)"

definition failed :: "string \<Rightarrow> 'a decoded \<Rightarrow> string list" where
  "failed fieldName d = (case d of Unconvertible \<Rightarrow> [fieldName] | Untouched \<Rightarrow> [] | Assigned a \<Rightarrow> [])"

definition Decode ::
  "'v reflection \<Rightarrow> (string \<Rightarrow> string \<Rightarrow> bool) \<Rightarrow> (string \<times> 'v) list \<Rightarrow> publisherConf \<Rightarrow> publisherConf \<times> error option" where
  "Decode R u config cnf =
     (let f1 = decodeField R u (toString R) config ''ProjectID'';
          f2 = decodeField R u (toString R) config ''Credentials'';
          f3 = decodeField R u (toInt R) config ''PublishTimeout'';
          f4 = decodeField R u (toBool R) config ''Debug'';
          f5 = decodeField R u (toBool R) config ''Trace'';
          f6 = decodeField R u (toBool R) config ''DoNotCreateTopicIfMissing'';
          errors = failed ''ProjectID'' f1 @ failed ''Credentials'' f2 @ failed ''PublishTimeout'' f3
                   @ failed ''Debug'' f4 @ failed ''Trace'' f5 @ failed ''DoNotCreateTopicIfMissing'' f6
      in (\<lparr>ProjectID = assign f1 (ProjectID cnf),
           Credentials = assign f2 (Credentials cnf),
           PublishTimeout = assign f3 (PublishTimeout cnf),
           Debug = assign f4 (Debug cnf),
           Trace = assign f5 (Trace cnf),
           DoNotCreateTopicIfMissing = assign f6 (DoNotCreateTopicIfMissing cnf)\<rparr>,
          if errors = [] then None else Some (decodeError errors)))"

subsection \<open>Publisher, the constructor (watermill variant)\<close>

definition withCredentials :: "string \<Rightarrow> ClientOption list" where
  "withCredentials credentials =
     (let opt = [] in
      if length credentials > 0 then opt @ [WithCredentialsJSON (bytes credentials)] else opt)"

text \<open>
  \<open>newPublisher\<close> is what \<^verbatim>\<open>googlecloud.NewPublisher\<close> answers: an error or the
  client.
\<close>

definition Publisher ::
  "'v reflection \<Rightarrow> (string \<Rightarrow> string \<Rightarrow> bool) \<Rightarrow> (PublisherConfig \<Rightarrow> StdLogger \<Rightarrow> error + 'p)
     \<Rightarrow> (string \<times> 'v) list \<Rightarrow> 'p outcome \<times> event list" where
  "Publisher R u newPublisher config =
     (case Decode R u config publisherConf_zero of
        (cnf, Some err) \<Rightarrow> (Exit, [Fatalf ''xk6-pubsub: unable to read publisher config: %v'' err])
      | (cnf, None) \<Rightarrow>
          (let cnf = (if PublishTimeout cnf <s 1 then cnf\<lparr>PublishTimeout := 5\<rparr> else cnf);
               pc = \<lparr>ProjectID_pc = ProjectID cnf,
                     Marshaler_pc = DefaultMarshalerUnmarshaler,
                     PublishTimeout_pc = Second * PublishTimeout cnf,
                     DoNotCreateTopicIfMissing_pc = DoNotCreateTopicIfMissing cnf,
                     ClientOptions_pc = withCredentials (Credentials cnf)\<rparr>;
               logger = NewStdLogger (Debug cnf) (Trace cnf)
           in case newPublisher pc logger of
                Inl err \<Rightarrow> (Exit, [NewPublisher pc logger,
                                   Fatalf ''xk6-pubsub: unable to init publisher: %v'' err])
              | Inr client \<Rightarrow> (Returns client, [NewPublisher pc logger])))"

subsection \<open>Publisher, the constructor (native variant)\<close>

text \<open>
  \<open>newClientWithConfig\<close> is what \<^verbatim>\<open>pubsub.NewClientWithConfig\<close> answers; the context
  it is given is \<^verbatim>\<open>context.Background()\<close>.
\<close>

definition Publisher_native ::
  "'v reflection \<Rightarrow> (string \<Rightarrow> string \<Rightarrow> bool)
     \<Rightarrow> (string \<Rightarrow> ClientConfig \<Rightarrow> ClientOption list \<Rightarrow> error + 'p)
     \<Rightarrow> (string \<times> 'v) list \<Rightarrow> 'p outcome \<times> event list" where
  "Publisher_native R u newClientWithConfig config =
     (case Decode R u config publisherConf_zero of
        (cnf, Some err) \<Rightarrow> (Exit, [Fatalf ''xk6-pubsub: unable to read publisher config: %v'' err])
      | (cnf, None) \<Rightarrow>
          (let cnf = (if PublishTimeout cnf <s 1 then cnf\<lparr>PublishTimeout := 5\<rparr> else cnf);
               clientConfig = \<lparr>PublisherCallOptions_Publish = [WithTimeout (PublishTimeout cnf * Second)]\<rparr>;
               opt = [];
               opt = (if length (Credentials cnf) > 0
                      then opt @ [WithCredentialsJSON (bytes (Credentials cnf))] else opt)
           in case newClientWithConfig (ProjectID cnf) clientConfig opt of
                Inl err \<Rightarrow> (Exit, [NewClientWithConfig (ProjectID cnf) clientConfig opt,
                                   Fatalf ''xk6-pubsub: unable to init publisher: %v'' err])
              | Inr client \<Rightarrow> (Returns client, [NewClientWithConfig (ProjectID cnf) clientConfig opt])))"

subsection \<open>Reporting an error\<close>

text \<open>
  Modelled from the spec: \<^verbatim>\<open>ReportError(err, msg)\<close>, which both files call and
  neither defines (its file is not among the sources). The spec: a failure is
  ``reported to a diagnostic sink and returned as an error value'', and ``any
  diagnostic/error reporting is a side channel (e.g., to a logging or metrics sink) in
  addition to the returned error -- it does not change control flow''. So the call
  leaves one report and returns.
\<close>

definition ReportError :: "error \<Rightarrow> string \<Rightarrow> unit outcome \<times> event list" where
  "ReportError err msg = (Returns (), [Report err msg])"

subsection \<open>Publishing (watermill variant)\<close>

text \<open>
  \<^verbatim>\<open>message.NewMessage(uuid, payload)\<close> of watermill: the identifier, the payload and
  a fresh map without entries.
\<close>

definition NewMessage :: "string \<Rightarrow> byte list \<Rightarrow> Message" where
  "NewMessage uuid payload = \<lparr>UUID = uuid, Metadata = Map.empty, Payload = payload\<rparr>"

definition createMessage :: "string \<Rightarrow> byte list \<Rightarrow> (string \<rightharpoonup> string) \<Rightarrow> Message" where
  "createMessage uuid payload metadata = \<lparr>UUID = uuid, Metadata = metadata, Payload = payload\<rparr>"

text \<open>
  \<open>GetState\<close> is \<^verbatim>\<open>lib.GetState\<close> of k6: the state the context carries, or
  \<^verbatim>\<open>nil\<close>. \<open>p\<close> is the client: what its \<^verbatim>\<open>Publish(topic, message)\<close> answers,
  \<^verbatim>\<open>nil\<close> or an error.
\<close>

definition publishMessage ::
  "('c \<Rightarrow> 's option) \<Rightarrow> 'c \<Rightarrow> (string \<Rightarrow> Message \<Rightarrow> error option) \<Rightarrow> string \<Rightarrow> Message
     \<Rightarrow> error option outcome \<times> event list" where
  "publishMessage GetState ctx p topic message =
     (let state = GetState ctx in
      if state = None then
        (let err = errorString ''xk6-pubsub: state is nil'' in
         case ReportError err ''cannot determine state'' of
           (Exit, es) \<Rightarrow> (Exit, es)
         | (Returns r, es) \<Rightarrow> (Returns (Some err), es))
      else
        (case p topic message of
           Some err \<Rightarrow>
             (case ReportError err ''xk6-pubsub: unable to publish message'' of
                (Exit, es) \<Rightarrow> (Exit, PublisherPublish topic message # es)
              | (Returns r, es) \<Rightarrow> (Returns (Some err), PublisherPublish topic message # es))
         | None \<Rightarrow> (Returns None, [PublisherPublish topic message])))"

text \<open>
  \<open>newShortUUID\<close> is the identifier that \<^verbatim>\<open>watermill.NewShortUUID()\<close> draws at this
  call.
\<close>

definition Publish ::
  "('c \<Rightarrow> 's option) \<Rightarrow> string \<Rightarrow> 'c \<Rightarrow> (string \<Rightarrow> Message \<Rightarrow> error option) \<Rightarrow> string \<Rightarrow> string
     \<Rightarrow> error option outcome \<times> event list" where
  "Publish GetState newShortUUID ctx p topic msg =
     (let newMessage = NewMessage newShortUUID (bytes msg) in
      publishMessage GetState ctx p topic newMessage)"

definition PublishWithAttributes ::
  "('c \<Rightarrow> 's option) \<Rightarrow> string \<Rightarrow> 'c \<Rightarrow> (string \<Rightarrow> Message \<Rightarrow> error option) \<Rightarrow> string \<Rightarrow> string
     \<Rightarrow> (string \<rightharpoonup> string) \<Rightarrow> error option outcome \<times> event list" where
  "PublishWithAttributes GetState newShortUUID ctx p topic msg attributes =
     (let newMessage = createMessage newShortUUID (bytes msg) attributes in
      publishMessage GetState ctx p topic newMessage)"

subsection \<open>Publishing (native variant)\<close>

text \<open>
  The module instance holds the virtual user; \<^verbatim>\<open>ps.vu.State()\<close> is its state, or
  \<^verbatim>\<open>nil\<close>.
\<close>

datatype 's VU = VU "'s option"

fun State :: "'s VU \<Rightarrow> 's option" where
  "State (VU s) = s"

record 's PubSub =
  vu :: "'s VU"

text \<open>
  \<open>p\<close> is the client: what \<^verbatim>\<open>p.Topic(topic).Publish(ctx, msg)\<close> followed by
  \<^verbatim>\<open>res.Get(ctx)\<close> answers, an error or the identifier the service gave the message.
  The attributes are the variadic parameter, a list.
\<close>

definition publishMessage_native ::
  "(string \<Rightarrow> pubsub_Message \<Rightarrow> error + string) \<Rightarrow> string \<Rightarrow> byte list \<Rightarrow> 's option
     \<Rightarrow> (string \<rightharpoonup> string) list \<Rightarrow> error option outcome \<times> event list" where
  "publishMessage_native p topic data state attributes =
     (if state = None then
        (let err = errorString ''xk6-pubsub: state is nil'' in
         case ReportError err ''cannot determine state'' of
           (Exit, es) \<Rightarrow> (Exit, es)
         | (Returns r, es) \<Rightarrow> (Returns (Some err), es))
      else
        (let msg = \<lparr>ID = [], Data = data, Attributes = Map.empty\<rparr>;
             msg = (if length attributes > 0 then msg\<lparr>Attributes := attributes ! 0\<rparr> else msg)
         in case p topic msg of
              Inl err \<Rightarrow>
                (case ReportError err ''xk6-pubsub: unable to publish message'' of
                   (Exit, es) \<Rightarrow> (Exit, TopicPublish topic msg # es)
                 | (Returns r, es) \<Rightarrow> (Returns (Some err), TopicPublish topic msg # es))
            | Inr serverID \<Rightarrow> (Returns None, [TopicPublish topic msg])))"

definition Publish_native ::
  "'s PubSub \<Rightarrow> (string \<Rightarrow> pubsub_Message \<Rightarrow> error + string) \<Rightarrow> string \<Rightarrow> string
     \<Rightarrow> error option outcome \<times> event list" where
  "Publish_native ps p topic msg = publishMessage_native p topic (bytes msg) (State (vu ps)) []"

definition PublishWithAttributes_native ::
  "'s PubSub \<Rightarrow> (string \<Rightarrow> pubsub_Message \<Rightarrow> error + string) \<Rightarrow> string \<Rightarrow> string
     \<Rightarrow> (string \<rightharpoonup> string) \<Rightarrow> error option outcome \<times> event list" where
  "PublishWithAttributes_native ps p topic msg attributes =
     publishMessage_native p topic (bytes msg) (State (vu ps)) [attributes]"

subsection \<open>Concrete collaborators, for the examples\<close>

text \<open>
  The values a k6 script can put into the configuration object that concern the
  decoder here: \<^verbatim>\<open>null\<close>, a boolean, an integer (an \<^verbatim>\<open>int64\<close>) and a string. The
  decoder assigns a value to a field of the same kind and refuses the others.
\<close>

datatype script_value = Null | Boolean bool | Integer "64 word" | Text string

definition script_reflection :: "script_value reflection" where
  "script_reflection =
     \<lparr>isNil = (\<lambda>v. case v of Null \<Rightarrow> True | Boolean b \<Rightarrow> False | Integer i \<Rightarrow> False | Text s \<Rightarrow> False),
      toString = (\<lambda>v. case v of Null \<Rightarrow> None | Boolean b \<Rightarrow> None | Integer i \<Rightarrow> None | Text s \<Rightarrow> Some s),
      toInt = (\<lambda>v. case v of Null \<Rightarrow> None | Boolean b \<Rightarrow> None | Integer i \<Rightarrow> Some i | Text s \<Rightarrow> None),
      toBool = (\<lambda>v. case v of Null \<Rightarrow> None | Boolean b \<Rightarrow> Some b | Integer i \<Rightarrow> None | Text s \<Rightarrow> None)\<rparr>"

text \<open>With keys in ASCII the Unicode part of the comparison is never asked.\<close>

definition ascii_keys :: "string \<Rightarrow> string \<Rightarrow> bool" where
  "ascii_keys s t = False"

text \<open>A service that can be reached, and one that cannot.\<close>

definition reachable :: "PublisherConfig \<Rightarrow> StdLogger \<Rightarrow> error + unit" where
  "reachable pc logger = Inr ()"

definition unreachable :: "PublisherConfig \<Rightarrow> StdLogger \<Rightarrow> error + unit" where
  "unreachable pc logger = Inl (libraryError ''dial failed'')"

definition reachable_native :: "string \<Rightarrow> ClientConfig \<Rightarrow> ClientOption list \<Rightarrow> error + unit" where
  "reachable_native project clientConfig opt = Inr ()"

definition unreachable_native :: "string \<Rightarrow> ClientConfig \<Rightarrow> ClientOption list \<Rightarrow> error + unit" where
  "unreachable_native project clientConfig opt = Inl (libraryError ''dial failed'')"

text \<open>A context that carries a state and one that does not; a client that accepts and one that fails.\<close>

definition contextState :: "nat option \<Rightarrow> nat option" where
  "contextState ctx = ctx"

definition accepts :: "string \<Rightarrow> Message \<Rightarrow> error option" where
  "accepts topic message = None"

definition rejects :: "string \<Rightarrow> Message \<Rightarrow> error option" where
  "rejects topic message = Some (libraryError ''deadline exceeded'')"

definition accepts_native :: "string \<Rightarrow> pubsub_Message \<Rightarrow> error + string" where
  "accepts_native topic msg = Inr ''1''"

definition rejects_native :: "string \<Rightarrow> pubsub_Message \<Rightarrow> error + string" where
  "rejects_native topic msg = Inl (libraryError ''deadline exceeded'')"

subsection \<open>What a list of events shows\<close>

text \<open>The calls of the client's publish operation among the events.\<close>

fun isPublish :: "event \<Rightarrow> bool" where
  "isPublish (PublisherPublish topic message) = True"
| "isPublish (TopicPublish topic msg) = True"
| "isPublish (Fatalf format err) = False"
| "isPublish (NewPublisher pc logger) = False"
| "isPublish (NewClientWithConfig project clientConfig opt) = False"
| "isPublish (Report err msg) = False"

text \<open>The names of the fields of \<^verbatim>\<open>publisherConf\<close>, which the decoder looks for.\<close>

definition publisherConf_fields :: "string list" where
  "publisherConf_fields =
     [''ProjectID'', ''Credentials'', ''PublishTimeout'', ''Debug'', ''Trace'', ''DoNotCreateTopicIfMissing'']"

section \<open>Properties\<close>

subsection \<open>Durations, and keys the decoder does not find\<close>

lemma sint_seconds:
  fixes n :: "64 word"
  assumes "1 \<le> sint n" and "sint n \<le> 9223372036"
  shows "sint (Second * n) = sint n * 1000000000"
proof -
  have "sint (Second * n) = signed_take_bit 63 (sint Second * sint n)"
    by (simp add: sint_word_ariths)
  also have "sint Second = 1000000000"
    by (simp add: Second_def)
  also have "signed_take_bit 63 (1000000000 * sint n) = 1000000000 * sint n"
    using assms by (simp add: signed_take_bit_int_eq_self_iff)
  finally show ?thesis by simp
qed

lemma sint_five_seconds: "sint (Second * 5) = 5 * 1000000000"
  by (simp add: Second_def)

lemma sless_one: "(n <s (1 :: 64 word)) = (sint n < 1)"
  by (simp add: word_sless_alt)

lemma foldSearch_absent:
  "\<forall>k \<in> fst ` set config. \<not> EqualFold u k name \<Longrightarrow> foldSearch u name config = None"
  by (induction config) auto

lemma map_of_absent:
  "\<forall>k \<in> fst ` set config. k \<noteq> name \<Longrightarrow> map_of config name = None"
  by (induction config) auto

lemma rawMapVal_absent:
  assumes "\<forall>k \<in> fst ` set config. k \<noteq> name \<and> \<not> EqualFold u k name"
  shows "rawMapVal u config name = None"
  using assms by (simp add: rawMapVal_def foldSearch_absent map_of_absent)

lemma decodeField_absent:
  assumes "\<forall>k \<in> fst ` set config. k \<noteq> name \<and> \<not> EqualFold u k name"
  shows "decodeField R u conv config name = Untouched"
  using rawMapVal_absent [OF assms] by (simp add: decodeField_def)

lemma Decode_fields:
  assumes "Decode R u config c = (cnf, err)"
  shows "ProjectID cnf = assign (decodeField R u (toString R) config ''ProjectID'') (ProjectID c)"
    and "Credentials cnf = assign (decodeField R u (toString R) config ''Credentials'') (Credentials c)"
    and "PublishTimeout cnf = assign (decodeField R u (toInt R) config ''PublishTimeout'') (PublishTimeout c)"
    and "Debug cnf = assign (decodeField R u (toBool R) config ''Debug'') (Debug c)"
    and "Trace cnf = assign (decodeField R u (toBool R) config ''Trace'') (Trace c)"
    and "DoNotCreateTopicIfMissing cnf =
           assign (decodeField R u (toBool R) config ''DoNotCreateTopicIfMissing'') (DoNotCreateTopicIfMissing c)"
  using assms by (auto simp: Decode_def Let_def)

lemma Publisher_decoded:
  assumes "Decode R u config publisherConf_zero = (cnf, None)"
    and "pc = \<lparr>ProjectID_pc = ProjectID cnf,
               Marshaler_pc = DefaultMarshalerUnmarshaler,
               PublishTimeout_pc = Second * (if PublishTimeout cnf <s 1 then 5 else PublishTimeout cnf),
               DoNotCreateTopicIfMissing_pc = DoNotCreateTopicIfMissing cnf,
               ClientOptions_pc = withCredentials (Credentials cnf)\<rparr>"
    and "logger = NewStdLogger (Debug cnf) (Trace cnf)"
  shows "Publisher R u newPublisher config =
     (case newPublisher pc logger of
        Inl err \<Rightarrow> (Exit, [NewPublisher pc logger, Fatalf ''xk6-pubsub: unable to init publisher: %v'' err])
      | Inr client \<Rightarrow> (Returns client, [NewPublisher pc logger]))"
  using assms by (auto simp: Publisher_def Let_def split: sum.split)

lemma Publisher_native_decoded:
  assumes "Decode R u config publisherConf_zero = (cnf, None)"
    and "cc = \<lparr>PublisherCallOptions_Publish =
                 [WithTimeout ((if PublishTimeout cnf <s 1 then 5 else PublishTimeout cnf) * Second)]\<rparr>"
    and "opt = withCredentials (Credentials cnf)"
  shows "Publisher_native R u newClient config =
     (case newClient (ProjectID cnf) cc opt of
        Inl err \<Rightarrow> (Exit, [NewClientWithConfig (ProjectID cnf) cc opt,
                           Fatalf ''xk6-pubsub: unable to init publisher: %v'' err])
      | Inr client \<Rightarrow> (Returns client, [NewClientWithConfig (ProjectID cnf) cc opt]))"
  using assms by (auto simp: Publisher_native_def Let_def withCredentials_def split: sum.split)

lemma Publisher_undecoded:
  assumes "Decode R u config publisherConf_zero = (cnf, Some err)"
  shows "Publisher R u newPublisher config =
           (Exit, [Fatalf ''xk6-pubsub: unable to read publisher config: %v'' err])"
    and "Publisher_native R u newClient config =
           (Exit, [Fatalf ''xk6-pubsub: unable to read publisher config: %v'' err])"
  using assms by (simp_all add: Publisher_def Publisher_native_def)

lemmas Decode_simps =
  Decode_def decodeField_def rawMapVal_def decode_def assign_def failed_def
  script_reflection_def publisherConf_zero_def

subsection \<open>The publish timeout\<close>

text \<open>
  C1, amended. For every configuration map that the decoder accepts, both constructors
  ask the client for the same publish timeout, and with \<open>N\<close> the decoded value of
  \<open>PublishTimeout\<close> it is 5 seconds when \<open>N\<close> is zero or negative, and \<open>N\<close> seconds when
  \<open>1 \<le> N \<le> 9223372036\<close>, the whole seconds that fit the 64 bits of nanoseconds of a
  \<^verbatim>\<open>time.Duration\<close>. When no key of the map is the field's name or folds to it, the
  decoded value is zero (so the timeout is 5 seconds), and \<^verbatim>\<open>publish_timeout\<close> is no
  such key.
\<close>

theorem Publisher_resolved_timeout:
  assumes "Decode R u config publisherConf_zero = (cnf, None)"
  shows "\<exists>pc logger rest project cc opt rest'.
      snd (Publisher R u newPublisher config) = NewPublisher pc logger # rest \<and>
      snd (Publisher_native R u newClient config) = NewClientWithConfig project cc opt # rest' \<and>
      PublisherCallOptions_Publish cc = [WithTimeout (PublishTimeout_pc pc)] \<and>
      (sint (PublishTimeout cnf) < 1 \<longrightarrow> sint (PublishTimeout_pc pc) = 5 * 1000000000) \<and>
      (1 \<le> sint (PublishTimeout cnf) \<and> sint (PublishTimeout cnf) \<le> 9223372036 \<longrightarrow>
         sint (PublishTimeout_pc pc) = sint (PublishTimeout cnf) * 1000000000) \<and>
      ((\<forall>k \<in> fst ` set config. k \<noteq> ''PublishTimeout'' \<and> \<not> EqualFold u k ''PublishTimeout'') \<longrightarrow>
         PublishTimeout cnf = 0) \<and>
      \<not> EqualFold u ''publish_timeout'' ''PublishTimeout''"
proof -
  define n where "n = (if PublishTimeout cnf <s 1 then 5 else PublishTimeout cnf)"
  define pc where "pc = \<lparr>ProjectID_pc = ProjectID cnf,
               Marshaler_pc = DefaultMarshalerUnmarshaler,
               PublishTimeout_pc = Second * n,
               DoNotCreateTopicIfMissing_pc = DoNotCreateTopicIfMissing cnf,
               ClientOptions_pc = withCredentials (Credentials cnf)\<rparr>"
  define cc where "cc = \<lparr>PublisherCallOptions_Publish = [WithTimeout (n * Second)]\<rparr>"
  have a: "\<exists>rest. snd (Publisher R u newPublisher config) =
             NewPublisher pc (NewStdLogger (Debug cnf) (Trace cnf)) # rest"
    using Publisher_decoded [OF assms, of pc "NewStdLogger (Debug cnf) (Trace cnf)" newPublisher]
    by (simp add: pc_def n_def split: sum.split)
  have b: "\<exists>rest. snd (Publisher_native R u newClient config) =
             NewClientWithConfig (ProjectID cnf) cc (withCredentials (Credentials cnf)) # rest"
    using Publisher_native_decoded [OF assms, of cc "withCredentials (Credentials cnf)" newClient]
    by (simp add: cc_def n_def split: sum.split)
  have c: "PublisherCallOptions_Publish cc = [WithTimeout (PublishTimeout_pc pc)]"
    by (simp add: cc_def pc_def mult.commute)
  have d: "sint (PublishTimeout cnf) < 1 \<longrightarrow> sint (PublishTimeout_pc pc) = 5 * 1000000000"
    by (simp add: pc_def n_def sless_one sint_five_seconds)
  have e: "1 \<le> sint (PublishTimeout cnf) \<and> sint (PublishTimeout cnf) \<le> 9223372036 \<longrightarrow>
         sint (PublishTimeout_pc pc) = sint (PublishTimeout cnf) * 1000000000"
    by (simp add: pc_def n_def sless_one sint_seconds)
  have f: "(\<forall>k \<in> fst ` set config. k \<noteq> ''PublishTimeout'' \<and> \<not> EqualFold u k ''PublishTimeout'') \<longrightarrow>
         PublishTimeout cnf = 0"
  proof
    assume h: "\<forall>k \<in> fst ` set config. k \<noteq> ''PublishTimeout'' \<and> \<not> EqualFold u k ''PublishTimeout''"
    show "PublishTimeout cnf = 0"
      using Decode_fields(3) [OF assms] decodeField_absent [OF h, of R "toInt R"]
      by (simp add: assign_def publisherConf_zero_def)
  qed
  have g: "\<not> EqualFold u ''publish_timeout'' ''PublishTimeout''"
    by simp
  from a b c d e f g show ?thesis by blast
qed

text \<open>
  The theorem at two maps: \<^verbatim>\<open>{publishTimeout: 30}\<close> gives 30 seconds, and
  \<^verbatim>\<open>{publish_timeout: 30}\<close>, the key name of the spec, gives 5 seconds.
\<close>

theorem Publisher_resolved_timeout_witness:
  "Decode script_reflection ascii_keys [(''publishTimeout'', Integer 30)] publisherConf_zero =
     (\<lparr>ProjectID = [], Credentials = [], PublishTimeout = 30,
       Debug = False, Trace = False, DoNotCreateTopicIfMissing = False\<rparr>, None) \<and>
   (\<exists>pc logger rest project cc opt rest'.
      snd (Publisher script_reflection ascii_keys reachable [(''publishTimeout'', Integer 30)]) =
        NewPublisher pc logger # rest \<and>
      snd (Publisher_native script_reflection ascii_keys reachable_native [(''publishTimeout'', Integer 30)]) =
        NewClientWithConfig project cc opt # rest' \<and>
      PublisherCallOptions_Publish cc = [WithTimeout (PublishTimeout_pc pc)] \<and>
      sint (PublishTimeout_pc pc) = 30 * 1000000000) \<and>
   Decode script_reflection ascii_keys [(''publish_timeout'', Integer 30)] publisherConf_zero =
     (\<lparr>ProjectID = [], Credentials = [], PublishTimeout = 0,
       Debug = False, Trace = False, DoNotCreateTopicIfMissing = False\<rparr>, None) \<and>
   (\<exists>pc logger rest project cc opt rest'.
      snd (Publisher script_reflection ascii_keys reachable [(''publish_timeout'', Integer 30)]) =
        NewPublisher pc logger # rest \<and>
      snd (Publisher_native script_reflection ascii_keys reachable_native [(''publish_timeout'', Integer 30)]) =
        NewClientWithConfig project cc opt # rest' \<and>
      PublisherCallOptions_Publish cc = [WithTimeout (PublishTimeout_pc pc)] \<and>
      sint (PublishTimeout_pc pc) = 5 * 1000000000)"
proof -
  have d1: "Decode script_reflection ascii_keys [(''publishTimeout'', Integer 30)] publisherConf_zero =
     (\<lparr>ProjectID = [], Credentials = [], PublishTimeout = 30,
       Debug = False, Trace = False, DoNotCreateTopicIfMissing = False\<rparr>, None)"
    by (simp add: Decode_simps)
  have d2: "Decode script_reflection ascii_keys [(''publish_timeout'', Integer 30)] publisherConf_zero =
     (\<lparr>ProjectID = [], Credentials = [], PublishTimeout = 0,
       Debug = False, Trace = False, DoNotCreateTopicIfMissing = False\<rparr>, None)"
    by (simp add: Decode_simps)
  show ?thesis
    using d1 d2
      Publisher_resolved_timeout [OF d1, of reachable reachable_native]
      Publisher_resolved_timeout [OF d2, of reachable reachable_native]
    by simp
qed

text \<open>
  C1 as stated fails for a large \<open>N\<close>: the map \<^verbatim>\<open>{PublishTimeout: 9223372037}\<close> decodes
  to the positive \<open>N = 9223372037\<close>, and the product with \<^verbatim>\<open>time.Second\<close> wraps around:
  the timeout both constructors ask for is negative, not \<open>N\<close> seconds.
\<close>

theorem Publisher_timeout_overflow:
  "Decode script_reflection ascii_keys [(''PublishTimeout'', Integer 9223372037)] publisherConf_zero =
     (\<lparr>ProjectID = [], Credentials = [], PublishTimeout = 9223372037,
       Debug = False, Trace = False, DoNotCreateTopicIfMissing = False\<rparr>, None) \<and>
   sint (9223372037 :: 64 word) = 9223372037 \<and>
   Publisher script_reflection ascii_keys reachable [(''PublishTimeout'', Integer 9223372037)] =
     (Returns (),
      [NewPublisher
         \<lparr>ProjectID_pc = [], Marshaler_pc = DefaultMarshalerUnmarshaler,
          PublishTimeout_pc = 9223372037000000000,
          DoNotCreateTopicIfMissing_pc = False, ClientOptions_pc = []\<rparr>
         (NewStdLogger False False)]) \<and>
   Publisher_native script_reflection ascii_keys reachable_native [(''PublishTimeout'', Integer 9223372037)] =
     (Returns (),
      [NewClientWithConfig [] \<lparr>PublisherCallOptions_Publish = [WithTimeout 9223372037000000000]\<rparr> []]) \<and>
   sint (9223372037000000000 :: 64 word) = - 9223372036709551616 \<and>
   sint (9223372037000000000 :: 64 word) \<noteq> 9223372037 * 1000000000"
  by (simp add: Decode_simps Publisher_def Publisher_native_def withCredentials_def Second_def
      reachable_def reachable_native_def word_sless_alt)

subsection \<open>Credentials\<close>

lemma withCredentials_eq:
  "withCredentials c = (if c = [] then [] else [WithCredentialsJSON (bytes c)])"
  by (simp add: withCredentials_def)

lemma unat_of_char: "unat (of_char c :: 8 word) = of_char c"
proof -
  have "unat (of_nat (of_char c) :: 8 word) = of_char c mod 256"
    by (simp add: unat_of_nat)
  then show ?thesis
    by (simp add: of_nat_of_char)
qed

lemma bytes_content: "map (char_of \<circ> unat) (bytes s) = s"
  by (induction s) (simp_all add: bytes_def unat_of_char)

text \<open>
  C4. For every configuration map that the decoder accepts, both constructors hand the
  client the same list of options: when the decoded \<open>Credentials\<close> string is not empty,
  the one option \<^verbatim>\<open>WithCredentialsJSON\<close> of the bytes of that string (the bytes read
  back as characters are the string), and when it is empty, the empty list. When no key
  of the map is the field's name or folds to it, the decoded string is empty.
\<close>

theorem Publisher_credentials:
  assumes "Decode R u config publisherConf_zero = (cnf, None)"
  shows "\<exists>pc logger rest project cc opt rest'.
      snd (Publisher R u newPublisher config) = NewPublisher pc logger # rest \<and>
      snd (Publisher_native R u newClient config) = NewClientWithConfig project cc opt # rest' \<and>
      ClientOptions_pc pc = opt \<and>
      (Credentials cnf \<noteq> [] \<longrightarrow> opt = [WithCredentialsJSON (bytes (Credentials cnf))]) \<and>
      (Credentials cnf = [] \<longrightarrow> opt = []) \<and>
      map (char_of \<circ> unat) (bytes (Credentials cnf)) = Credentials cnf \<and>
      ((\<forall>k \<in> fst ` set config. k \<noteq> ''Credentials'' \<and> \<not> EqualFold u k ''Credentials'') \<longrightarrow>
         Credentials cnf = [])"
proof -
  define pc where "pc = \<lparr>ProjectID_pc = ProjectID cnf,
               Marshaler_pc = DefaultMarshalerUnmarshaler,
               PublishTimeout_pc = Second * (if PublishTimeout cnf <s 1 then 5 else PublishTimeout cnf),
               DoNotCreateTopicIfMissing_pc = DoNotCreateTopicIfMissing cnf,
               ClientOptions_pc = withCredentials (Credentials cnf)\<rparr>"
  define cc where "cc = \<lparr>PublisherCallOptions_Publish =
                 [WithTimeout ((if PublishTimeout cnf <s 1 then 5 else PublishTimeout cnf) * Second)]\<rparr>"
  have a: "\<exists>rest. snd (Publisher R u newPublisher config) =
             NewPublisher pc (NewStdLogger (Debug cnf) (Trace cnf)) # rest"
    using Publisher_decoded [OF assms, of pc "NewStdLogger (Debug cnf) (Trace cnf)" newPublisher]
    by (simp add: pc_def split: sum.split)
  have b: "\<exists>rest. snd (Publisher_native R u newClient config) =
             NewClientWithConfig (ProjectID cnf) cc (withCredentials (Credentials cnf)) # rest"
    using Publisher_native_decoded [OF assms, of cc "withCredentials (Credentials cnf)" newClient]
    by (simp add: cc_def split: sum.split)
  have c: "ClientOptions_pc pc = withCredentials (Credentials cnf)"
    by (simp add: pc_def)
  have d: "Credentials cnf \<noteq> [] \<longrightarrow>
             withCredentials (Credentials cnf) = [WithCredentialsJSON (bytes (Credentials cnf))]"
    and e: "Credentials cnf = [] \<longrightarrow> withCredentials (Credentials cnf) = []"
    by (simp_all add: withCredentials_eq)
  have f: "(\<forall>k \<in> fst ` set config. k \<noteq> ''Credentials'' \<and> \<not> EqualFold u k ''Credentials'') \<longrightarrow>
         Credentials cnf = []"
  proof
    assume h: "\<forall>k \<in> fst ` set config. k \<noteq> ''Credentials'' \<and> \<not> EqualFold u k ''Credentials''"
    show "Credentials cnf = []"
      using Decode_fields(2) [OF assms] decodeField_absent [OF h, of R "toString R"]
      by (simp add: assign_def publisherConf_zero_def)
  qed
  from a b c d e f bytes_content [of "Credentials cnf"] show ?thesis by blast
qed

text \<open>
  The theorem at \<^verbatim>\<open>{credentials: "{}"}\<close>, where the option carries the bytes 123 and 125,
  and at a map without credentials, where no option is passed.
\<close>

theorem Publisher_credentials_witness:
  "Decode script_reflection ascii_keys [(''credentials'', Text ''{}'')] publisherConf_zero =
     (\<lparr>ProjectID = [], Credentials = ''{}'', PublishTimeout = 0,
       Debug = False, Trace = False, DoNotCreateTopicIfMissing = False\<rparr>, None) \<and>
   (\<exists>pc logger rest project cc opt rest'.
      snd (Publisher script_reflection ascii_keys reachable [(''credentials'', Text ''{}'')]) =
        NewPublisher pc logger # rest \<and>
      snd (Publisher_native script_reflection ascii_keys reachable_native [(''credentials'', Text ''{}'')]) =
        NewClientWithConfig project cc opt # rest' \<and>
      ClientOptions_pc pc = opt \<and> opt = [WithCredentialsJSON [123, 125]]) \<and>
   Decode script_reflection ascii_keys [(''ProjectID'', Text ''p'')] publisherConf_zero =
     (\<lparr>ProjectID = ''p'', Credentials = [], PublishTimeout = 0,
       Debug = False, Trace = False, DoNotCreateTopicIfMissing = False\<rparr>, None) \<and>
   (\<exists>pc logger rest project cc opt rest'.
      snd (Publisher script_reflection ascii_keys reachable [(''ProjectID'', Text ''p'')]) =
        NewPublisher pc logger # rest \<and>
      snd (Publisher_native script_reflection ascii_keys reachable_native [(''ProjectID'', Text ''p'')]) =
        NewClientWithConfig project cc opt # rest' \<and>
      ClientOptions_pc pc = opt \<and> opt = [])"
proof -
  have d1: "Decode script_reflection ascii_keys [(''credentials'', Text ''{}'')] publisherConf_zero =
     (\<lparr>ProjectID = [], Credentials = ''{}'', PublishTimeout = 0,
       Debug = False, Trace = False, DoNotCreateTopicIfMissing = False\<rparr>, None)"
    by (simp add: Decode_simps)
  have d2: "Decode script_reflection ascii_keys [(''ProjectID'', Text ''p'')] publisherConf_zero =
     (\<lparr>ProjectID = ''p'', Credentials = [], PublishTimeout = 0,
       Debug = False, Trace = False, DoNotCreateTopicIfMissing = False\<rparr>, None)"
    by (simp add: Decode_simps)
  show ?thesis
    using d1 d2
      Publisher_credentials [OF d1, of reachable reachable_native]
      Publisher_credentials [OF d2, of reachable reachable_native]
    by (auto simp: bytes_def)
qed

subsection \<open>Fatal errors of the constructor\<close>

lemma Decode_error:
  "(snd (Decode R u config cnf) \<noteq> None) =
     (decodeField R u (toString R) config ''ProjectID'' = Unconvertible \<or>
      decodeField R u (toString R) config ''Credentials'' = Unconvertible \<or>
      decodeField R u (toInt R) config ''PublishTimeout'' = Unconvertible \<or>
      decodeField R u (toBool R) config ''Debug'' = Unconvertible \<or>
      decodeField R u (toBool R) config ''Trace'' = Unconvertible \<or>
      decodeField R u (toBool R) config ''DoNotCreateTopicIfMissing'' = Unconvertible)"
  by (simp add: Decode_def Let_def failed_def split: decoded.split)

text \<open>
  C6. For every configuration map, in both variants: when the decoder returns an error,
  or when the constructor of the client that Publisher calls answers with an error,
  Publisher ends the process: it returns nothing, and the last thing it does is the
  call of \<^verbatim>\<open>log.Fatalf\<close>. The decoder returns an error exactly when the value it found
  for one of the six fields is not \<^verbatim>\<open>nil\<close> and cannot be converted to the field's kind.
\<close>

theorem Publisher_fatal:
  "((\<exists>cnf err. Decode R u config publisherConf_zero = (cnf, Some err)) \<or>
    (\<exists>pc logger err. NewPublisher pc logger \<in> set (snd (Publisher R u newPublisher config)) \<and>
        newPublisher pc logger = Inl err) \<longrightarrow>
      fst (Publisher R u newPublisher config) = Exit \<and>
      (\<exists>format err. last (snd (Publisher R u newPublisher config)) = Fatalf format err)) \<and>
   ((\<exists>cnf err. Decode R u config publisherConf_zero = (cnf, Some err)) \<or>
    (\<exists>project cc opt err. NewClientWithConfig project cc opt \<in> set (snd (Publisher_native R u newClient config)) \<and>
        newClient project cc opt = Inl err) \<longrightarrow>
      fst (Publisher_native R u newClient config) = Exit \<and>
      (\<exists>format err. last (snd (Publisher_native R u newClient config)) = Fatalf format err)) \<and>
   ((\<exists>cnf err. Decode R u config publisherConf_zero = (cnf, Some err)) =
      (decodeField R u (toString R) config ''ProjectID'' = Unconvertible \<or>
       decodeField R u (toString R) config ''Credentials'' = Unconvertible \<or>
       decodeField R u (toInt R) config ''PublishTimeout'' = Unconvertible \<or>
       decodeField R u (toBool R) config ''Debug'' = Unconvertible \<or>
       decodeField R u (toBool R) config ''Trace'' = Unconvertible \<or>
       decodeField R u (toBool R) config ''DoNotCreateTopicIfMissing'' = Unconvertible))"
proof -
  obtain cnf e where dec: "Decode R u config publisherConf_zero = (cnf, e)"
    by (cases "Decode R u config publisherConf_zero")
  have a: "fst (Publisher R u newPublisher config) = Exit \<and>
      (\<exists>format err. last (snd (Publisher R u newPublisher config)) = Fatalf format err)"
    if "(\<exists>cnf err. Decode R u config publisherConf_zero = (cnf, Some err)) \<or>
        (\<exists>pc logger err. NewPublisher pc logger \<in> set (snd (Publisher R u newPublisher config)) \<and>
           newPublisher pc logger = Inl err)"
  proof (cases e)
    case (Some err)
    then show ?thesis using Publisher_undecoded(1) [of R u config cnf err newPublisher] dec by simp
  next
    case None
    with dec have d: "Decode R u config publisherConf_zero = (cnf, None)" by simp
    from that d obtain pc logger err where
      m: "NewPublisher pc logger \<in> set (snd (Publisher R u newPublisher config))"
      and f: "newPublisher pc logger = Inl err"
      by auto
    define PC where "PC = \<lparr>ProjectID_pc = ProjectID cnf,
               Marshaler_pc = DefaultMarshalerUnmarshaler,
               PublishTimeout_pc = Second * (if PublishTimeout cnf <s 1 then 5 else PublishTimeout cnf),
               DoNotCreateTopicIfMissing_pc = DoNotCreateTopicIfMissing cnf,
               ClientOptions_pc = withCredentials (Credentials cnf)\<rparr>"
    define LG where "LG = NewStdLogger (Debug cnf) (Trace cnf)"
    note eq = Publisher_decoded [OF d PC_def LG_def, of newPublisher]
    from m eq have "pc = PC \<and> logger = LG"
      by (cases "newPublisher PC LG") auto
    with f eq show ?thesis
      by simp
  qed
  have b: "fst (Publisher_native R u newClient config) = Exit \<and>
      (\<exists>format err. last (snd (Publisher_native R u newClient config)) = Fatalf format err)"
    if "(\<exists>cnf err. Decode R u config publisherConf_zero = (cnf, Some err)) \<or>
        (\<exists>project cc opt err. NewClientWithConfig project cc opt \<in> set (snd (Publisher_native R u newClient config)) \<and>
           newClient project cc opt = Inl err)"
  proof (cases e)
    case (Some err)
    then show ?thesis using Publisher_undecoded(2) [of R u config cnf err newClient] dec by simp
  next
    case None
    with dec have d: "Decode R u config publisherConf_zero = (cnf, None)" by simp
    from that d obtain project cc opt err where
      m: "NewClientWithConfig project cc opt \<in> set (snd (Publisher_native R u newClient config))"
      and f: "newClient project cc opt = Inl err"
      by auto
    define CC where "CC = \<lparr>PublisherCallOptions_Publish =
                 [WithTimeout ((if PublishTimeout cnf <s 1 then 5 else PublishTimeout cnf) * Second)]\<rparr>"
    define OPT where "OPT = withCredentials (Credentials cnf)"
    note eq = Publisher_native_decoded [OF d CC_def OPT_def, of newClient]
    from m eq have "project = ProjectID cnf \<and> cc = CC \<and> opt = OPT"
      by (cases "newClient (ProjectID cnf) CC OPT") auto
    with f eq show ?thesis
      by simp
  qed
  have c: "(\<exists>cnf err. Decode R u config publisherConf_zero = (cnf, Some err)) =
             (snd (Decode R u config publisherConf_zero) \<noteq> None)"
    by (cases "Decode R u config publisherConf_zero") auto
  from a b show ?thesis
    unfolding c Decode_error by blast
qed

text \<open>
  The theorem at \<^verbatim>\<open>{PublishTimeout: "30"}\<close>, a string where an int is expected, and at
  the empty map with a service that cannot be reached.
\<close>

theorem Publisher_fatal_witness:
  "Decode script_reflection ascii_keys [(''PublishTimeout'', Text ''30'')] publisherConf_zero =
     (publisherConf_zero, Some (decodeError [''PublishTimeout''])) \<and>
   Publisher script_reflection ascii_keys reachable [(''PublishTimeout'', Text ''30'')] =
     (Exit, [Fatalf ''xk6-pubsub: unable to read publisher config: %v'' (decodeError [''PublishTimeout''])]) \<and>
   fst (Publisher_native script_reflection ascii_keys reachable_native [(''PublishTimeout'', Text ''30'')]) = Exit \<and>
   NewPublisher \<lparr>ProjectID_pc = [], Marshaler_pc = DefaultMarshalerUnmarshaler,
                 PublishTimeout_pc = 5000000000, DoNotCreateTopicIfMissing_pc = False,
                 ClientOptions_pc = []\<rparr> (NewStdLogger False False)
     \<in> set (snd (Publisher script_reflection ascii_keys unreachable [])) \<and>
   fst (Publisher script_reflection ascii_keys unreachable []) = Exit \<and>
   NewClientWithConfig [] \<lparr>PublisherCallOptions_Publish = [WithTimeout 5000000000]\<rparr> []
     \<in> set (snd (Publisher_native script_reflection ascii_keys unreachable_native [])) \<and>
   fst (Publisher_native script_reflection ascii_keys unreachable_native []) = Exit"
proof -
  have d: "Decode script_reflection ascii_keys [(''PublishTimeout'', Text ''30'')] publisherConf_zero =
     (publisherConf_zero, Some (decodeError [''PublishTimeout'']))"
    by (simp add: Decode_simps)
  have p: "Publisher script_reflection ascii_keys reachable [(''PublishTimeout'', Text ''30'')] =
     (Exit, [Fatalf ''xk6-pubsub: unable to read publisher config: %v'' (decodeError [''PublishTimeout''])])"
    using d by (simp add: Publisher_def)
  have m: "NewPublisher \<lparr>ProjectID_pc = [], Marshaler_pc = DefaultMarshalerUnmarshaler,
                 PublishTimeout_pc = 5000000000, DoNotCreateTopicIfMissing_pc = False,
                 ClientOptions_pc = []\<rparr> (NewStdLogger False False)
     \<in> set (snd (Publisher script_reflection ascii_keys unreachable []))"
    by (simp add: Decode_simps Publisher_def withCredentials_def Second_def unreachable_def word_sless_alt)
  have n: "NewClientWithConfig [] \<lparr>PublisherCallOptions_Publish = [WithTimeout 5000000000]\<rparr> []
     \<in> set (snd (Publisher_native script_reflection ascii_keys unreachable_native []))"
    by (simp add: Decode_simps Publisher_native_def Second_def unreachable_native_def word_sless_alt)
  have u1: "unreachable \<lparr>ProjectID_pc = [], Marshaler_pc = DefaultMarshalerUnmarshaler,
                 PublishTimeout_pc = 5000000000, DoNotCreateTopicIfMissing_pc = False,
                 ClientOptions_pc = []\<rparr> (NewStdLogger False False) = Inl (libraryError ''dial failed'')"
    by (simp add: unreachable_def)
  have u2: "unreachable_native [] \<lparr>PublisherCallOptions_Publish = [WithTimeout 5000000000]\<rparr> []
              = Inl (libraryError ''dial failed'')"
    by (simp add: unreachable_native_def)
  show ?thesis
    using d p m n u1 u2
      Publisher_fatal [of script_reflection ascii_keys "[(''PublishTimeout'', Text ''30'')]" reachable reachable_native]
      Publisher_fatal [of script_reflection ascii_keys "[]" unreachable unreachable_native]
    by blast
qed

subsection \<open>Keys that match no field\<close>

lemma map_of_without:
  "name \<notin> X \<Longrightarrow> map_of (filter (\<lambda>kv. fst kv \<notin> X) config) name = map_of config name"
  by (induction config) auto

lemma foldSearch_without:
  "\<forall>k \<in> X. \<not> EqualFold u k name \<Longrightarrow>
     foldSearch u name (filter (\<lambda>kv. fst kv \<notin> X) config) = foldSearch u name config"
  by (induction config) auto

lemma rawMapVal_without:
  assumes "\<forall>k \<in> X. k \<noteq> name \<and> \<not> EqualFold u k name"
  shows "rawMapVal u (filter (\<lambda>kv. fst kv \<notin> X) config) name = rawMapVal u config name"
proof -
  from assms have "name \<notin> X" and "\<forall>k \<in> X. \<not> EqualFold u k name"
    by auto
  then show ?thesis
    by (simp add: rawMapVal_def map_of_without foldSearch_without cong: option.case_cong)
qed

lemma decodeField_without:
  assumes "\<forall>k \<in> X. k \<noteq> name \<and> \<not> EqualFold u k name"
  shows "decodeField R u conv (filter (\<lambda>kv. fst kv \<notin> X) config) name = decodeField R u conv config name"
  by (simp add: decodeField_def rawMapVal_without [OF assms])

lemma Decode_without:
  assumes "\<forall>k \<in> X. \<forall>f \<in> set publisherConf_fields. k \<noteq> f \<and> \<not> EqualFold u k f"
  shows "Decode R u (filter (\<lambda>kv. fst kv \<notin> X) config) cnf = Decode R u config cnf"
proof -
  have m: "\<forall>k \<in> X. k \<noteq> f \<and> \<not> EqualFold u k f" if "f \<in> set publisherConf_fields" for f
    using assms that by blast
  have names: "''ProjectID'' \<in> set publisherConf_fields" "''Credentials'' \<in> set publisherConf_fields"
    "''PublishTimeout'' \<in> set publisherConf_fields" "''Debug'' \<in> set publisherConf_fields"
    "''Trace'' \<in> set publisherConf_fields" "''DoNotCreateTopicIfMissing'' \<in> set publisherConf_fields"
    by (simp_all add: publisherConf_fields_def)
  show ?thesis
    unfolding Decode_def
    by (simp only: decodeField_without [OF m [OF names(1)]] decodeField_without [OF m [OF names(2)]]
        decodeField_without [OF m [OF names(3)]] decodeField_without [OF m [OF names(4)]]
        decodeField_without [OF m [OF names(5)]] decodeField_without [OF m [OF names(6)]])
qed

lemma Decode_empty: "Decode R u [] cnf = (cnf, None)"
  by (simp add: Decode_def decodeField_def rawMapVal_def assign_def failed_def)

lemma snake_case_keys:
  "\<forall>f \<in> set publisherConf_fields. ''project_id'' \<noteq> f \<and> \<not> EqualFold u ''project_id'' f"
  "\<forall>f \<in> set publisherConf_fields. ''publish_timeout'' \<noteq> f \<and> \<not> EqualFold u ''publish_timeout'' f"
  "\<forall>f \<in> set publisherConf_fields.
      ''do_not_create_topic_if_missing'' \<noteq> f \<and> \<not> EqualFold u ''do_not_create_topic_if_missing'' f"
  by (simp_all add: publisherConf_fields_def)

text \<open>
  C8. Let \<open>X\<close> be a set of keys none of which is the name of a field of the configuration
  record or folds to one. For every configuration map, the decoder and both
  constructors do on the map what they do on the map without the keys of \<open>X\<close>: the same
  decoded record, the same error or none, the same calls, the same result. A map with
  keys of \<open>X\<close> only decodes without error and leaves the record as it was. The names
  \<^verbatim>\<open>project_id\<close>, \<^verbatim>\<open>publish_timeout\<close> and \<^verbatim>\<open>do_not_create_topic_if_missing\<close> of the spec
  are such keys.
\<close>

theorem Publisher_ignores_unmatched_keys:
  assumes "\<forall>k \<in> X. \<forall>f \<in> set publisherConf_fields. k \<noteq> f \<and> \<not> EqualFold u k f"
  shows "Decode R u config cnf = Decode R u (filter (\<lambda>kv. fst kv \<notin> X) config) cnf \<and>
         Publisher R u newPublisher config = Publisher R u newPublisher (filter (\<lambda>kv. fst kv \<notin> X) config) \<and>
         Publisher_native R u newClient config =
           Publisher_native R u newClient (filter (\<lambda>kv. fst kv \<notin> X) config) \<and>
         ((\<forall>k \<in> fst ` set config. k \<in> X) \<longrightarrow> Decode R u config cnf = (cnf, None)) \<and>
         (\<forall>f \<in> set publisherConf_fields. ''project_id'' \<noteq> f \<and> \<not> EqualFold u ''project_id'' f) \<and>
         (\<forall>f \<in> set publisherConf_fields. ''publish_timeout'' \<noteq> f \<and> \<not> EqualFold u ''publish_timeout'' f) \<and>
         (\<forall>f \<in> set publisherConf_fields.
            ''do_not_create_topic_if_missing'' \<noteq> f \<and> \<not> EqualFold u ''do_not_create_topic_if_missing'' f)"
proof -
  note eq = Decode_without [OF assms, of R config]
  have a: "Decode R u config cnf = Decode R u (filter (\<lambda>kv. fst kv \<notin> X) config) cnf"
    by (simp add: eq)
  have b: "Publisher R u newPublisher config = Publisher R u newPublisher (filter (\<lambda>kv. fst kv \<notin> X) config)"
    by (simp add: Publisher_def eq)
  have c: "Publisher_native R u newClient config =
           Publisher_native R u newClient (filter (\<lambda>kv. fst kv \<notin> X) config)"
    by (simp add: Publisher_native_def eq)
  have d: "(\<forall>k \<in> fst ` set config. k \<in> X) \<longrightarrow> Decode R u config cnf = (cnf, None)"
  proof
    assume "\<forall>k \<in> fst ` set config. k \<in> X"
    then have "filter (\<lambda>kv. fst kv \<notin> X) config = []"
      by (auto simp: filter_empty_conv)
    with a show "Decode R u config cnf = (cnf, None)"
      by (simp add: Decode_empty)
  qed
  from a b c d snake_case_keys [of u] show ?thesis
    by blast
qed

text \<open>
  The theorem at a map written with the key names of the spec: only \<^verbatim>\<open>credentials\<close>
  reaches the client, and values of the wrong kind under unmatched keys are no error.
\<close>

theorem Publisher_ignores_unmatched_keys_witness:
  "\<not> EqualFold ascii_keys ''project_id'' ''ProjectID'' \<and>
   \<not> EqualFold ascii_keys ''publish_timeout'' ''PublishTimeout'' \<and>
   \<not> EqualFold ascii_keys ''do_not_create_topic_if_missing'' ''DoNotCreateTopicIfMissing'' \<and>
   Publisher script_reflection ascii_keys reachable
     [(''project_id'', Text ''p''), (''credentials'', Text ''{}''), (''publish_timeout'', Integer 30),
      (''do_not_create_topic_if_missing'', Boolean True)] =
   Publisher script_reflection ascii_keys reachable [(''credentials'', Text ''{}'')] \<and>
   Publisher script_reflection ascii_keys reachable
     [(''project_id'', Text ''p''), (''credentials'', Text ''{}''), (''publish_timeout'', Integer 30),
      (''do_not_create_topic_if_missing'', Boolean True)] =
     (Returns (),
      [NewPublisher
         \<lparr>ProjectID_pc = [], Marshaler_pc = DefaultMarshalerUnmarshaler,
          PublishTimeout_pc = 5000000000, DoNotCreateTopicIfMissing_pc = False,
          ClientOptions_pc = [WithCredentialsJSON [123, 125]]\<rparr>
         (NewStdLogger False False)]) \<and>
   Publisher_native script_reflection ascii_keys reachable_native
     [(''project_id'', Text ''p''), (''credentials'', Text ''{}''), (''publish_timeout'', Integer 30),
      (''do_not_create_topic_if_missing'', Boolean True)] =
   Publisher_native script_reflection ascii_keys reachable_native [(''credentials'', Text ''{}'')] \<and>
   Decode script_reflection ascii_keys [(''project_id'', Integer 7), (''publish_timeout'', Text ''soon'')]
     publisherConf_zero = (publisherConf_zero, None)"
proof -
  have h: "\<forall>k \<in> {''project_id'', ''publish_timeout'', ''do_not_create_topic_if_missing''}.
      \<forall>f \<in> set publisherConf_fields. k \<noteq> f \<and> \<not> EqualFold ascii_keys k f"
    by (simp add: publisherConf_fields_def)
  have v: "Publisher script_reflection ascii_keys reachable [(''credentials'', Text ''{}'')] =
     (Returns (),
      [NewPublisher
         \<lparr>ProjectID_pc = [], Marshaler_pc = DefaultMarshalerUnmarshaler,
          PublishTimeout_pc = 5000000000, DoNotCreateTopicIfMissing_pc = False,
          ClientOptions_pc = [WithCredentialsJSON [123, 125]]\<rparr>
         (NewStdLogger False False)])"
    by (simp add: Decode_simps Publisher_def withCredentials_def bytes_def Second_def
        reachable_def word_sless_alt)
  show ?thesis
    using h v
      Publisher_ignores_unmatched_keys [OF h, of script_reflection
        "[(''project_id'', Text ''p''), (''credentials'', Text ''{}''), (''publish_timeout'', Integer 30),
          (''do_not_create_topic_if_missing'', Boolean True)]" publisherConf_zero reachable reachable_native]
      Publisher_ignores_unmatched_keys [OF h, of script_reflection
        "[(''project_id'', Integer 7), (''publish_timeout'', Text ''soon'')]" publisherConf_zero
        reachable reachable_native]
    by (simp add: Decode_empty)
qed

subsection \<open>Publishing: what one call does\<close>

lemma publishMessage_run:
  "publishMessage GetState ctx p topic message =
     (if GetState ctx = None then
        (Returns (Some (errorString ''xk6-pubsub: state is nil'')),
         [Report (errorString ''xk6-pubsub: state is nil'') ''cannot determine state''])
      else
        (Returns (p topic message),
         PublisherPublish topic message #
           (case p topic message of
              None \<Rightarrow> []
            | Some err \<Rightarrow> [Report err ''xk6-pubsub: unable to publish message''])))"
  by (simp add: publishMessage_def ReportError_def Let_def split: option.split)

lemma publishMessage_native_run:
  "publishMessage_native p topic data state attributes =
     (if state = None then
        (Returns (Some (errorString ''xk6-pubsub: state is nil'')),
         [Report (errorString ''xk6-pubsub: state is nil'') ''cannot determine state''])
      else
        (Returns (case p topic \<lparr>ID = [], Data = data,
                                  Attributes = (case attributes of [] \<Rightarrow> Map.empty | a # as \<Rightarrow> a)\<rparr> of
                    Inl err \<Rightarrow> Some err | Inr serverID \<Rightarrow> None),
         TopicPublish topic \<lparr>ID = [], Data = data,
                              Attributes = (case attributes of [] \<Rightarrow> Map.empty | a # as \<Rightarrow> a)\<rparr> #
           (case p topic \<lparr>ID = [], Data = data,
                           Attributes = (case attributes of [] \<Rightarrow> Map.empty | a # as \<Rightarrow> a)\<rparr> of
              Inr serverID \<Rightarrow> []
            | Inl err \<Rightarrow> [Report err ''xk6-pubsub: unable to publish message''])))"
  by (cases attributes) (simp_all add: publishMessage_native_def ReportError_def Let_def split: sum.split)

lemma publishMessage_calls:
  "filter isPublish (snd (publishMessage GetState ctx p topic message)) =
     (if GetState ctx = None then [] else [PublisherPublish topic message])"
  by (simp add: publishMessage_run split: option.split)

lemma publishMessage_native_calls:
  "filter isPublish (snd (publishMessage_native p topic data state attributes)) =
     (if state = None then []
      else [TopicPublish topic \<lparr>ID = [], Data = data,
                                 Attributes = (case attributes of [] \<Rightarrow> Map.empty | a # as \<Rightarrow> a)\<rparr>])"
  by (simp add: publishMessage_native_run split: sum.split)

subsection \<open>Publishing without an execution state\<close>

text \<open>
  C2. For every call of \<open>Publish\<close> and \<open>PublishWithAttributes\<close>, in both variants: when no
  state can be found (\<^verbatim>\<open>lib.GetState(ctx)\<close>, or \<^verbatim>\<open>ps.vu.State()\<close>, is \<^verbatim>\<open>nil\<close>), the call
  returns the error \<^verbatim>\<open>xk6-pubsub: state is nil\<close>, the one thing it does is to report that
  error, so the client's publish operation is not called, and the call returns: the
  process goes on.
\<close>

theorem publish_without_state:
  "(GetState ctx = None \<longrightarrow>
      Publish GetState uuid ctx p topic msg =
        (Returns (Some (errorString ''xk6-pubsub: state is nil'')),
         [Report (errorString ''xk6-pubsub: state is nil'') ''cannot determine state'']) \<and>
      PublishWithAttributes GetState uuid ctx p topic msg attributes =
        (Returns (Some (errorString ''xk6-pubsub: state is nil'')),
         [Report (errorString ''xk6-pubsub: state is nil'') ''cannot determine state'']) \<and>
      filter isPublish (snd (Publish GetState uuid ctx p topic msg)) = [] \<and>
      filter isPublish (snd (PublishWithAttributes GetState uuid ctx p topic msg attributes)) = []) \<and>
   (State (vu ps) = None \<longrightarrow>
      Publish_native ps q topic msg =
        (Returns (Some (errorString ''xk6-pubsub: state is nil'')),
         [Report (errorString ''xk6-pubsub: state is nil'') ''cannot determine state'']) \<and>
      PublishWithAttributes_native ps q topic msg attributes =
        (Returns (Some (errorString ''xk6-pubsub: state is nil'')),
         [Report (errorString ''xk6-pubsub: state is nil'') ''cannot determine state'']) \<and>
      filter isPublish (snd (Publish_native ps q topic msg)) = [] \<and>
      filter isPublish (snd (PublishWithAttributes_native ps q topic msg attributes)) = [])"
  by (simp add: Publish_def PublishWithAttributes_def Publish_native_def PublishWithAttributes_native_def
      publishMessage_run publishMessage_native_run)

text \<open>The theorem at a context without state, for the four functions.\<close>

theorem publish_without_state_witness:
  "contextState None = None \<and>
   Publish contextState ''a1'' None accepts ''topic-a'' ''hello'' =
     (Returns (Some (errorString ''xk6-pubsub: state is nil'')),
      [Report (errorString ''xk6-pubsub: state is nil'') ''cannot determine state'']) \<and>
   PublishWithAttributes contextState ''a1'' None accepts ''topic-a'' ''hello'' [''k'' \<mapsto> ''v''] =
     (Returns (Some (errorString ''xk6-pubsub: state is nil'')),
      [Report (errorString ''xk6-pubsub: state is nil'') ''cannot determine state'']) \<and>
   State (vu \<lparr>vu = VU (None :: nat option)\<rparr>) = None \<and>
   Publish_native \<lparr>vu = VU (None :: nat option)\<rparr> accepts_native ''topic-a'' ''hello'' =
     (Returns (Some (errorString ''xk6-pubsub: state is nil'')),
      [Report (errorString ''xk6-pubsub: state is nil'') ''cannot determine state'']) \<and>
   PublishWithAttributes_native \<lparr>vu = VU (None :: nat option)\<rparr> accepts_native ''topic-a'' ''hello''
       [''k'' \<mapsto> ''v''] =
     (Returns (Some (errorString ''xk6-pubsub: state is nil'')),
      [Report (errorString ''xk6-pubsub: state is nil'') ''cannot determine state''])"
  using publish_without_state [where GetState = contextState and ctx = None
      and ps = "\<lparr>vu = VU (None :: nat option)\<rparr>" and uuid = "''a1''" and p = accepts
      and topic = "''topic-a''" and msg = "''hello''" and attributes = "[''k'' \<mapsto> ''v'']"
      and q = accepts_native]
  by (simp add: contextState_def)

subsection \<open>Publishing with an execution state\<close>

lemma publishMessage_result:
  "fst (publishMessage GetState ctx p topic message) =
     Returns (if GetState ctx = None then Some (errorString ''xk6-pubsub: state is nil'')
              else p topic message)"
  by (simp add: publishMessage_run)

lemma publishMessage_native_result:
  "fst (publishMessage_native p topic data state attributes) =
     Returns (if state = None then Some (errorString ''xk6-pubsub: state is nil'')
              else case p topic \<lparr>ID = [], Data = data,
                                  Attributes = (case attributes of [] \<Rightarrow> Map.empty | a # as \<Rightarrow> a)\<rparr> of
                     Inl err \<Rightarrow> Some err | Inr serverID \<Rightarrow> None)"
  by (simp add: publishMessage_native_run)

lemma Publish_unfold:
  "Publish GetState uuid ctx p topic msg =
     publishMessage GetState ctx p topic (NewMessage uuid (bytes msg))"
  "PublishWithAttributes GetState uuid ctx p topic msg attributes =
     publishMessage GetState ctx p topic (createMessage uuid (bytes msg) attributes)"
  by (simp_all add: Publish_def PublishWithAttributes_def)

text \<open>
  C3. For every publish call that finds a state, in both variants: the client's publish
  operation is called once, with the topic and the message of the call, and what the
  call returns is what the client answered, so an error of the client comes back as it
  is. There is no second call. After the client's call the only event is the report of
  the error, when there is one; the value returned is the same with and without it.
\<close>

theorem publish_once:
  "(GetState ctx \<noteq> None \<longrightarrow>
      publishMessage GetState ctx p topic message =
        (Returns (p topic message),
         PublisherPublish topic message #
           (case p topic message of
              None \<Rightarrow> []
            | Some err \<Rightarrow> [Report err ''xk6-pubsub: unable to publish message''])) \<and>
      fst (Publish GetState uuid ctx p topic msg) = Returns (p topic (NewMessage uuid (bytes msg))) \<and>
      filter isPublish (snd (Publish GetState uuid ctx p topic msg)) =
        [PublisherPublish topic (NewMessage uuid (bytes msg))] \<and>
      fst (PublishWithAttributes GetState uuid ctx p topic msg attributes) =
        Returns (p topic (createMessage uuid (bytes msg) attributes)) \<and>
      filter isPublish (snd (PublishWithAttributes GetState uuid ctx p topic msg attributes)) =
        [PublisherPublish topic (createMessage uuid (bytes msg) attributes)]) \<and>
   (State (vu ps) \<noteq> None \<longrightarrow>
      fst (Publish_native ps q topic msg) =
        Returns (case q topic \<lparr>ID = [], Data = bytes msg, Attributes = Map.empty\<rparr> of
                   Inl err \<Rightarrow> Some err | Inr serverID \<Rightarrow> None) \<and>
      filter isPublish (snd (Publish_native ps q topic msg)) =
        [TopicPublish topic \<lparr>ID = [], Data = bytes msg, Attributes = Map.empty\<rparr>] \<and>
      fst (PublishWithAttributes_native ps q topic msg attributes) =
        Returns (case q topic \<lparr>ID = [], Data = bytes msg, Attributes = attributes\<rparr> of
                   Inl err \<Rightarrow> Some err | Inr serverID \<Rightarrow> None) \<and>
      filter isPublish (snd (PublishWithAttributes_native ps q topic msg attributes)) =
        [TopicPublish topic \<lparr>ID = [], Data = bytes msg, Attributes = attributes\<rparr>])"
proof -
  have "GetState ctx \<noteq> None \<longrightarrow>
      publishMessage GetState ctx p topic message =
        (Returns (p topic message),
         PublisherPublish topic message #
           (case p topic message of
              None \<Rightarrow> []
            | Some err \<Rightarrow> [Report err ''xk6-pubsub: unable to publish message'']))"
    by (simp add: publishMessage_run)
  then show ?thesis
    by (simp add: Publish_unfold Publish_native_def PublishWithAttributes_native_def
        publishMessage_result publishMessage_native_result publishMessage_calls publishMessage_native_calls)
qed

text \<open>The theorem at a client that fails with \<^verbatim>\<open>deadline exceeded\<close>.\<close>

theorem publish_once_witness:
  "contextState (Some 1) \<noteq> None \<and>
   Publish contextState ''a1'' (Some 1) rejects ''topic-a'' ''hello'' =
     (Returns (Some (libraryError ''deadline exceeded'')),
      [PublisherPublish ''topic-a'' \<lparr>UUID = ''a1'', Metadata = Map.empty, Payload = [104, 101, 108, 108, 111]\<rparr>,
       Report (libraryError ''deadline exceeded'') ''xk6-pubsub: unable to publish message'']) \<and>
   filter isPublish (snd (Publish contextState ''a1'' (Some 1) rejects ''topic-a'' ''hello'')) =
     [PublisherPublish ''topic-a'' \<lparr>UUID = ''a1'', Metadata = Map.empty, Payload = [104, 101, 108, 108, 111]\<rparr>] \<and>
   State (vu \<lparr>vu = VU (Some (1 :: nat))\<rparr>) \<noteq> None \<and>
   Publish_native \<lparr>vu = VU (Some (1 :: nat))\<rparr> rejects_native ''topic-a'' ''hello'' =
     (Returns (Some (libraryError ''deadline exceeded'')),
      [TopicPublish ''topic-a'' \<lparr>ID = [], Data = [104, 101, 108, 108, 111], Attributes = Map.empty\<rparr>,
       Report (libraryError ''deadline exceeded'') ''xk6-pubsub: unable to publish message'']) \<and>
   filter isPublish (snd (Publish_native \<lparr>vu = VU (Some (1 :: nat))\<rparr> rejects_native ''topic-a'' ''hello'')) =
     [TopicPublish ''topic-a'' \<lparr>ID = [], Data = [104, 101, 108, 108, 111], Attributes = Map.empty\<rparr>]"
proof -
  have a: "Publish contextState ''a1'' (Some 1) rejects ''topic-a'' ''hello'' =
     (Returns (Some (libraryError ''deadline exceeded'')),
      [PublisherPublish ''topic-a'' \<lparr>UUID = ''a1'', Metadata = Map.empty, Payload = [104, 101, 108, 108, 111]\<rparr>,
       Report (libraryError ''deadline exceeded'') ''xk6-pubsub: unable to publish message''])"
    by (simp add: Publish_def NewMessage_def bytes_def publishMessage_def ReportError_def
        contextState_def rejects_def)
  have b: "Publish_native \<lparr>vu = VU (Some (1 :: nat))\<rparr> rejects_native ''topic-a'' ''hello'' =
     (Returns (Some (libraryError ''deadline exceeded'')),
      [TopicPublish ''topic-a'' \<lparr>ID = [], Data = [104, 101, 108, 108, 111], Attributes = Map.empty\<rparr>,
       Report (libraryError ''deadline exceeded'') ''xk6-pubsub: unable to publish message''])"
    by (simp add: Publish_native_def bytes_def publishMessage_native_def ReportError_def rejects_native_def)
  show ?thesis
    using a b publish_once [where GetState = contextState and ctx = "Some 1"
      and ps = "\<lparr>vu = VU (Some (1 :: nat))\<rparr>" and uuid = "''a1''" and p = rejects
      and topic = "''topic-a''" and msg = "''hello''" and q = rejects_native
      and message = "NewMessage ''a1'' (bytes ''hello'')"]
    by (simp add: contextState_def NewMessage_def bytes_def)
qed

subsection \<open>The message of PublishWithAttributes\<close>

text \<open>
  C5. For every call of \<open>PublishWithAttributes\<close>, in both variants: the messages handed to
  the client are none when no state is found, and otherwise the one message whose
  attributes (\<open>Metadata\<close>, \<open>Attributes\<close>) are the map \<open>attributes\<close> of the call and whose
  payload is \<open>bytes msg\<close>; these bytes read back as characters are \<open>msg\<close>.
\<close>

theorem PublishWithAttributes_message:
  "filter isPublish (snd (PublishWithAttributes GetState uuid ctx p topic msg attributes)) =
     (if GetState ctx = None then []
      else [PublisherPublish topic \<lparr>UUID = uuid, Metadata = attributes, Payload = bytes msg\<rparr>]) \<and>
   filter isPublish (snd (PublishWithAttributes_native ps q topic msg attributes)) =
     (if State (vu ps) = None then []
      else [TopicPublish topic \<lparr>ID = [], Data = bytes msg, Attributes = attributes\<rparr>]) \<and>
   map (char_of \<circ> unat) (bytes msg) = msg"
  by (simp add: Publish_unfold PublishWithAttributes_native_def createMessage_def
      publishMessage_calls publishMessage_native_calls bytes_content)

text \<open>The example of the spec: topic \<^verbatim>\<open>topic-a\<close>, message \<^verbatim>\<open>hello\<close>, attributes \<^verbatim>\<open>{"k": "v"}\<close>.\<close>

theorem PublishWithAttributes_message_witness:
  "filter isPublish (snd (PublishWithAttributes contextState ''a1'' (Some 1) accepts ''topic-a'' ''hello''
       [''k'' \<mapsto> ''v''])) =
     [PublisherPublish ''topic-a''
        \<lparr>UUID = ''a1'', Metadata = [''k'' \<mapsto> ''v''], Payload = [104, 101, 108, 108, 111]\<rparr>] \<and>
   filter isPublish (snd (PublishWithAttributes_native \<lparr>vu = VU (Some (1 :: nat))\<rparr> accepts_native
       ''topic-a'' ''hello'' [''k'' \<mapsto> ''v''])) =
     [TopicPublish ''topic-a''
        \<lparr>ID = [], Data = [104, 101, 108, 108, 111], Attributes = [''k'' \<mapsto> ''v'']\<rparr>] \<and>
   map (char_of \<circ> unat) [104, 101, 108, 108, 111 :: byte] = ''hello''"
  using PublishWithAttributes_message [where GetState = contextState and ctx = "Some 1"
      and ps = "\<lparr>vu = VU (Some (1 :: nat))\<rparr>" and uuid = "''a1''" and p = accepts
      and topic = "''topic-a''" and msg = "''hello''" and attributes = "[''k'' \<mapsto> ''v'']"
      and q = accepts_native]
  by (simp add: contextState_def bytes_def)

subsection \<open>The two variants and the identifier of a message\<close>

text \<open>
  C7. The watermill variant builds its message, at every call, with the identifier that
  \<^verbatim>\<open>watermill.NewShortUUID()\<close> drew for it (that the library draws a different one each
  time is the library's matter and not modelled). When both variants find a state, each
  hands the client one message for the topic: the watermill one carries that identifier,
  the native one has its \<open>ID\<close> empty, and the two have the same payload, \<open>bytes msg\<close>, and
  the same attributes: none for \<open>Publish\<close>, the map of the call for
  \<open>PublishWithAttributes\<close>.
\<close>

theorem variants_message_identifier:
  "Publish GetState uuid ctx p topic msg =
     publishMessage GetState ctx p topic \<lparr>UUID = uuid, Metadata = Map.empty, Payload = bytes msg\<rparr> \<and>
   PublishWithAttributes GetState uuid ctx p topic msg attributes =
     publishMessage GetState ctx p topic \<lparr>UUID = uuid, Metadata = attributes, Payload = bytes msg\<rparr> \<and>
   (GetState ctx \<noteq> None \<and> State (vu ps) \<noteq> None \<longrightarrow>
     (\<exists>m n. filter isPublish (snd (Publish GetState uuid ctx p topic msg)) = [PublisherPublish topic m] \<and>
            filter isPublish (snd (Publish_native ps q topic msg)) = [TopicPublish topic n] \<and>
            UUID m = uuid \<and> ID n = [] \<and>
            Payload m = bytes msg \<and> Data n = bytes msg \<and>
            Metadata m = Map.empty \<and> Attributes n = Map.empty) \<and>
     (\<exists>m n. filter isPublish (snd (PublishWithAttributes GetState uuid ctx p topic msg attributes)) =
              [PublisherPublish topic m] \<and>
            filter isPublish (snd (PublishWithAttributes_native ps q topic msg attributes)) =
              [TopicPublish topic n] \<and>
            UUID m = uuid \<and> ID n = [] \<and>
            Payload m = bytes msg \<and> Data n = bytes msg \<and>
            Metadata m = attributes \<and> Attributes n = attributes))"
  by (simp add: Publish_unfold Publish_native_def PublishWithAttributes_native_def
      NewMessage_def createMessage_def publishMessage_calls publishMessage_native_calls)

text \<open>The theorem at the example of the spec, for both variants.\<close>

theorem variants_message_identifier_witness:
  "contextState (Some 1) \<noteq> None \<and> State (vu \<lparr>vu = VU (Some (1 :: nat))\<rparr>) \<noteq> None \<and>
   filter isPublish (snd (Publish contextState ''a1'' (Some 1) accepts ''topic-a'' ''hello'')) =
     [PublisherPublish ''topic-a'' \<lparr>UUID = ''a1'', Metadata = Map.empty, Payload = [104, 101, 108, 108, 111]\<rparr>] \<and>
   filter isPublish (snd (Publish_native \<lparr>vu = VU (Some (1 :: nat))\<rparr> accepts_native ''topic-a'' ''hello'')) =
     [TopicPublish ''topic-a'' \<lparr>ID = [], Data = [104, 101, 108, 108, 111], Attributes = Map.empty\<rparr>] \<and>
   (\<exists>m n. filter isPublish (snd (PublishWithAttributes contextState ''a1'' (Some 1) accepts ''topic-a'' ''hello''
              [''k'' \<mapsto> ''v''])) = [PublisherPublish ''topic-a'' m] \<and>
          filter isPublish (snd (PublishWithAttributes_native \<lparr>vu = VU (Some (1 :: nat))\<rparr> accepts_native
              ''topic-a'' ''hello'' [''k'' \<mapsto> ''v''])) = [TopicPublish ''topic-a'' n] \<and>
          UUID m = ''a1'' \<and> ID n = [] \<and> Payload m = Data n \<and> Metadata m = Attributes n)"
proof -
  have a: "filter isPublish (snd (Publish contextState ''a1'' (Some 1) accepts ''topic-a'' ''hello'')) =
     [PublisherPublish ''topic-a'' \<lparr>UUID = ''a1'', Metadata = Map.empty, Payload = [104, 101, 108, 108, 111]\<rparr>]"
    by (simp add: Publish_def NewMessage_def bytes_def publishMessage_def ReportError_def
        contextState_def accepts_def)
  have b: "filter isPublish (snd (Publish_native \<lparr>vu = VU (Some (1 :: nat))\<rparr> accepts_native ''topic-a'' ''hello'')) =
     [TopicPublish ''topic-a'' \<lparr>ID = [], Data = [104, 101, 108, 108, 111], Attributes = Map.empty\<rparr>]"
    by (simp add: Publish_native_def bytes_def publishMessage_native_def ReportError_def accepts_native_def)
  have c: "contextState (Some 1) \<noteq> None \<and> State (vu \<lparr>vu = VU (Some (1 :: nat))\<rparr>) \<noteq> None"
    by (simp add: contextState_def)
  from variants_message_identifier [where GetState = contextState and ctx = "Some 1"
      and ps = "\<lparr>vu = VU (Some (1 :: nat))\<rparr>" and uuid = "''a1''" and p = accepts
      and topic = "''topic-a''" and msg = "''hello''" and attributes = "[''k'' \<mapsto> ''v'']"
      and q = accepts_native] c
  have "\<exists>m n. filter isPublish (snd (PublishWithAttributes contextState ''a1'' (Some 1) accepts ''topic-a'' ''hello''
              [''k'' \<mapsto> ''v''])) = [PublisherPublish ''topic-a'' m] \<and>
          filter isPublish (snd (PublishWithAttributes_native \<lparr>vu = VU (Some (1 :: nat))\<rparr> accepts_native
              ''topic-a'' ''hello'' [''k'' \<mapsto> ''v''])) = [TopicPublish ''topic-a'' n] \<and>
          UUID m = ''a1'' \<and> ID n = [] \<and> Payload m = Data n \<and> Metadata m = Attributes n"
    by (elim impE conjE exE) (simp, metis)
  with a b c show ?thesis
    by simp
qed

subsection \<open>When a publish call returns nil\<close>

text \<open>
  C9. \<open>publishMessage\<close>, \<open>Publish\<close> and \<open>PublishWithAttributes\<close>, in both variants, always
  return, and the error they return is \<^verbatim>\<open>nil\<close> exactly when a state is found and the
  client's publish operation succeeds on the message of the call; in every other case it
  is an error.
\<close>

theorem publish_returns_nil_iff:
  "(\<exists>r. fst (publishMessage GetState ctx p topic message) = Returns r \<and>
        (r = None) = (GetState ctx \<noteq> None \<and> p topic message = None)) \<and>
   (\<exists>r. fst (Publish GetState uuid ctx p topic msg) = Returns r \<and>
        (r = None) = (GetState ctx \<noteq> None \<and> p topic (NewMessage uuid (bytes msg)) = None)) \<and>
   (\<exists>r. fst (PublishWithAttributes GetState uuid ctx p topic msg attributes) = Returns r \<and>
        (r = None) = (GetState ctx \<noteq> None \<and> p topic (createMessage uuid (bytes msg) attributes) = None)) \<and>
   (\<exists>r. fst (publishMessage_native q topic data state attrs) = Returns r \<and>
        (r = None) =
          (state \<noteq> None \<and>
           (\<exists>serverID. q topic \<lparr>ID = [], Data = data,
                                 Attributes = (case attrs of [] \<Rightarrow> Map.empty | a # as \<Rightarrow> a)\<rparr> = Inr serverID))) \<and>
   (\<exists>r. fst (Publish_native ps q topic msg) = Returns r \<and>
        (r = None) =
          (State (vu ps) \<noteq> None \<and>
           (\<exists>serverID. q topic \<lparr>ID = [], Data = bytes msg, Attributes = Map.empty\<rparr> = Inr serverID))) \<and>
   (\<exists>r. fst (PublishWithAttributes_native ps q topic msg attributes) = Returns r \<and>
        (r = None) =
          (State (vu ps) \<noteq> None \<and>
           (\<exists>serverID. q topic \<lparr>ID = [], Data = bytes msg, Attributes = attributes\<rparr> = Inr serverID)))"
  by (auto simp: Publish_unfold Publish_native_def PublishWithAttributes_native_def
      publishMessage_result publishMessage_native_result split: sum.splits)

text \<open>The three cases, for both variants: success, a failing client, no state.\<close>

theorem publish_returns_nil_iff_witness:
  "fst (Publish contextState ''a1'' (Some 1) accepts ''topic-a'' ''hello'') = Returns None \<and>
   fst (Publish contextState ''a1'' (Some 1) rejects ''topic-a'' ''hello'') =
     Returns (Some (libraryError ''deadline exceeded'')) \<and>
   fst (Publish contextState ''a1'' None accepts ''topic-a'' ''hello'') =
     Returns (Some (errorString ''xk6-pubsub: state is nil'')) \<and>
   fst (Publish_native \<lparr>vu = VU (Some (1 :: nat))\<rparr> accepts_native ''topic-a'' ''hello'') = Returns None \<and>
   fst (Publish_native \<lparr>vu = VU (Some (1 :: nat))\<rparr> rejects_native ''topic-a'' ''hello'') =
     Returns (Some (libraryError ''deadline exceeded'')) \<and>
   fst (Publish_native \<lparr>vu = VU (None :: nat option)\<rparr> accepts_native ''topic-a'' ''hello'') =
     Returns (Some (errorString ''xk6-pubsub: state is nil''))"
  using publish_returns_nil_iff [where GetState = contextState and ctx = "Some 1" and uuid = "''a1''"
      and p = accepts and topic = "''topic-a''" and msg = "''hello''"
      and message = "NewMessage ''a1'' (bytes ''hello'')" and attributes = "Map.empty"
      and ps = "\<lparr>vu = VU (Some (1 :: nat))\<rparr>" and q = accepts_native
      and data = "bytes ''hello''" and state = "Some (1 :: nat)" and attrs = "[]"]
  by (simp add: Publish_def Publish_native_def NewMessage_def publishMessage_def publishMessage_native_def
      ReportError_def Let_def contextState_def accepts_def accepts_native_def rejects_def rejects_native_def)

subsection \<open>The topic\<close>

text \<open>
  C10. For every topic, the empty string too, and every publish call that finds a state,
  in both variants: the one call of the client's publish operation is made for exactly
  that topic. Nothing at this layer looks at the topic.
\<close>

theorem topic_forwarded:
  "(GetState ctx \<noteq> None \<longrightarrow>
      (\<exists>m. filter isPublish (snd (Publish GetState uuid ctx p topic msg)) = [PublisherPublish topic m]) \<and>
      (\<exists>m. filter isPublish (snd (PublishWithAttributes GetState uuid ctx p topic msg attributes)) =
             [PublisherPublish topic m])) \<and>
   (State (vu ps) \<noteq> None \<longrightarrow>
      (\<exists>n. filter isPublish (snd (Publish_native ps q topic msg)) = [TopicPublish topic n]) \<and>
      (\<exists>n. filter isPublish (snd (PublishWithAttributes_native ps q topic msg attributes)) =
             [TopicPublish topic n]))"
  by (simp add: Publish_unfold Publish_native_def PublishWithAttributes_native_def
      publishMessage_calls publishMessage_native_calls)

text \<open>The theorem at the empty topic.\<close>

theorem topic_forwarded_witness:
  "contextState (Some 1) \<noteq> None \<and> State (vu \<lparr>vu = VU (Some (1 :: nat))\<rparr>) \<noteq> None \<and>
   (\<exists>m. filter isPublish (snd (Publish contextState ''a1'' (Some 1) accepts [] ''hello'')) =
          [PublisherPublish [] m]) \<and>
   (\<exists>n. filter isPublish (snd (Publish_native \<lparr>vu = VU (Some (1 :: nat))\<rparr> accepts_native [] ''hello'')) =
          [TopicPublish [] n]) \<and>
   Publish contextState ''a1'' (Some 1) accepts [] ''hello'' =
     (Returns None,
      [PublisherPublish [] \<lparr>UUID = ''a1'', Metadata = Map.empty, Payload = [104, 101, 108, 108, 111]\<rparr>])"
proof -
  have a: "Publish contextState ''a1'' (Some 1) accepts [] ''hello'' =
     (Returns None,
      [PublisherPublish [] \<lparr>UUID = ''a1'', Metadata = Map.empty, Payload = [104, 101, 108, 108, 111]\<rparr>])"
    by (simp add: Publish_def NewMessage_def bytes_def publishMessage_def ReportError_def
        contextState_def accepts_def)
  have c: "contextState (Some 1) \<noteq> None" "State (vu \<lparr>vu = VU (Some (1 :: nat))\<rparr>) \<noteq> None"
    by (simp_all add: contextState_def)
  show ?thesis
    using a c topic_forwarded [where GetState = contextState and ctx = "Some 1"
      and ps = "\<lparr>vu = VU (Some (1 :: nat))\<rparr>" and uuid = "''a1''" and p = accepts
      and topic = "[]" and msg = "''hello''" and q = accepts_native]
    by simp
qed

end
